theory Spec2Isabelle
  imports Main
begin

section \<open>Configuration options\<close>

text \<open>
  The \<open>config\<close> struct of the options file. Go creates it as \<open>&config{}\<close>, so every field
  starts zeroed: \<open>0\<close>, the nil slice, \<open>false\<close> and the empty string. A nil slice
  and an empty slice are both the empty list here (the code only takes their length and
  ranges over them). The context-line count is a Go \<open>int\<close>; it is only stored and printed,
  never computed with, so it is an \<open>int\<close> here.
\<close>

record config =
  cfg_diffUnified :: int
  cfg_excludeList :: "string list"
  cfg_isAmend :: bool
  cfg_diffTagPrefix :: string
  cfg_diffList :: "string list"
  cfg_commitId :: string

definition config_zero :: config where
  "config_zero =
     \<lparr>cfg_diffUnified = 0, cfg_excludeList = [], cfg_isAmend = False,
      cfg_diffTagPrefix = [], cfg_diffList = [], cfg_commitId = []\<rparr>"

text \<open>
  An \<open>Option\<close> is a closure over \<open>*config\<close> behind an interface whose only method is
  unexported, so the six constructors below are the only options a caller can build.
  Each constructor stands for the closure the function of the same name returns.
\<close>

datatype Option =
    WithDiffUnified int
  | WithExcludeList "string list"
  | WithEnableAmend bool
  | WithDiffTagPrefix string
  | WithDiffList "string list"
  | WithCommitId string

fun apply_option :: "Option \<Rightarrow> config \<Rightarrow> config" where
  "apply_option (WithDiffUnified val) c = c\<lparr>cfg_diffUnified := val\<rparr>"
| "apply_option (WithExcludeList val) c =
     (if length val = 0 then c else c\<lparr>cfg_excludeList := val\<rparr>)"
| "apply_option (WithEnableAmend val) c = c\<lparr>cfg_isAmend := val\<rparr>"
| "apply_option (WithDiffTagPrefix val) c = c\<lparr>cfg_diffTagPrefix := val\<rparr>"
| "apply_option (WithDiffList val) c = c\<lparr>cfg_diffList := val\<rparr>"
| "apply_option (WithCommitId val) c = c\<lparr>cfg_commitId := val\<rparr>"

section \<open>The command\<close>

definition excludeFromDiff :: "string list" where
  "excludeFromDiff = [''package-lock.json'', ''pnpm-lock.yaml'', ''*.lock'', ''go.sum'']"

record Command =
  diffUnified :: int
  excludeList :: "string list"
  isAmend :: bool
  diffTagPrefix :: string

text \<open>The loop of \<open>New\<close> over the options, in the order given.\<close>

fun apply_all :: "Option list \<Rightarrow> config \<Rightarrow> config" where
  "apply_all [] cfg = cfg"
| "apply_all (opt # opts) cfg = apply_all opts (apply_option opt cfg)"

definition New :: "Option list \<Rightarrow> Command" where
  "New opts =
     (let cfg = apply_all opts config_zero
      in \<lparr>diffUnified = cfg_diffUnified cfg,
          excludeList = excludeFromDiff @ cfg_excludeList cfg,
          isAmend = cfg_isAmend cfg,
          diffTagPrefix = cfg_diffTagPrefix cfg\<rparr>)"

definition excludeFiles :: "Command \<Rightarrow> string list" where
  "excludeFiles c = map (\<lambda>f. '':(exclude,top)'' @ f) (excludeList c)"

section \<open>External commands\<close>

text \<open>
  An \<open>exec.Cmd\<close> as \<open>exec.Command(name, arg...)\<close> builds it: the program name and the
  argument vector that follows it.
\<close>

datatype Cmd = Cmd (cmd_name: string) (cmd_args: "string list")

text \<open>
  Go's \<open>error\<close>s met in this package: the failure of a process to start or to exit
  with status zero (\<open>ExecError\<close>, with whatever the runtime reports), an error made by
  \<open>errors.New\<close> (\<open>ErrorString\<close>, with its message), a failed file-system call
  (\<open>PathError\<close>) and a failed template rendering (\<open>TemplateError\<close>).
\<close>

datatype error =
    ExecError string
  | ErrorString string
  | PathError string
  | TemplateError string

datatype node = File (file_data: string) (file_perm: nat) | Dir

datatype fs_op = OpWrite string | OpRemove string

text \<open>
  The world outside the program. \<open>respond\<close> is what running a command gives (its standard
  output, or the failure), as a function of the commands run before and of the command:
  the same command run twice may answer differently. \<open>trace\<close> lists the commands run
  so far, oldest first. \<open>files\<close> is the file system, \<open>refuse\<close> the reason for which
  the operating system turns a write or a removal down (permissions, a missing parent
  directory, a directory that is not empty), if it does.

  Modelled from the spec: \<open>util.GetTemplateByBytes\<close> is not among the sources; the spec
  calls it a template-rendering primitive taking a template name and returning rendered
  byte content, whose failure is surfaced verbatim. \<open>templates\<close> is that primitive.
\<close>

record world =
  respond :: "Cmd list \<Rightarrow> Cmd \<Rightarrow> error + string"
  trace :: "Cmd list"
  files :: "string \<rightharpoonup> node"
  refuse :: "fs_op \<Rightarrow> string option"
  templates :: "string \<Rightarrow> error + string"

text \<open>\<open>(*exec.Cmd).Output\<close>: run the command, return its standard output or the failure.\<close>

definition Output :: "Cmd \<Rightarrow> world \<Rightarrow> (error + string) \<times> world" where
  "Output cmd w = (respond w (trace w) cmd, w\<lparr>trace := trace w @ [cmd]\<rparr>)"

subsection \<open>Standard-library helpers\<close>

text \<open>
  \<open>strings.Split(s, sep)\<close> for a separator of one byte: the pieces between the
  separators, one more piece than there are separators, so the empty string splits into
  one empty piece.
\<close>

fun strings_Split :: "string \<Rightarrow> char \<Rightarrow> string list" where
  "strings_Split [] sep = [Nil]"
| "strings_Split (c # cs) sep =
     (if c = sep then [] # strings_Split cs sep
      else (case strings_Split cs sep of
              [] \<Rightarrow> [c # Nil]
            | t # ts \<Rightarrow> (c # t) # ts))"

text \<open>\<open>strconv.Itoa\<close>: the decimal digits, after a minus sign for a negative number.\<close>

fun digits :: "nat \<Rightarrow> string" where
  "digits n =
     (if n < 10 then [''0123456789'' ! n]
      else digits (n div 10) @ [''0123456789'' ! (n mod 10)])"

declare digits.simps [simp del]

definition strconv_Itoa :: "int \<Rightarrow> string" where
  "strconv_Itoa i = (if i < 0 then ''-'' @ digits (nat (- i)) else digits (nat i))"

text \<open>
  \<open>strings.TrimSpace\<close>: drop the leading and the trailing white space, as
  \<open>unicode.IsSpace\<close> defines it. A Go string is a sequence of bytes, so each space is
  the byte sequence of its UTF-8 encoding: the six ASCII spaces, then U+0085, U+00A0,
  U+1680, U+2000 to U+200A, U+2028, U+2029, U+202F, U+205F and U+3000.
\<close>

definition spaces :: "string list" where
  "spaces =
     [ [CHR 0x09], [CHR 0x0A], [CHR 0x0B], [CHR 0x0C], [CHR 0x0D], [CHR 0x20],
      [CHR 0xC2, CHR 0x85], [CHR 0xC2, CHR 0xA0], [CHR 0xE1, CHR 0x9A, CHR 0x80],
      [CHR 0xE2, CHR 0x80, CHR 0x80], [CHR 0xE2, CHR 0x80, CHR 0x81],
      [CHR 0xE2, CHR 0x80, CHR 0x82], [CHR 0xE2, CHR 0x80, CHR 0x83],
      [CHR 0xE2, CHR 0x80, CHR 0x84], [CHR 0xE2, CHR 0x80, CHR 0x85],
      [CHR 0xE2, CHR 0x80, CHR 0x86], [CHR 0xE2, CHR 0x80, CHR 0x87],
      [CHR 0xE2, CHR 0x80, CHR 0x88], [CHR 0xE2, CHR 0x80, CHR 0x89],
      [CHR 0xE2, CHR 0x80, CHR 0x8A], [CHR 0xE2, CHR 0x80, CHR 0xA8],
      [CHR 0xE2, CHR 0x80, CHR 0xA9], [CHR 0xE2, CHR 0x80, CHR 0xAF],
      [CHR 0xE2, CHR 0x81, CHR 0x9F], [CHR 0xE3, CHR 0x80, CHR 0x80]]"

function strip_leading :: "string list \<Rightarrow> string \<Rightarrow> string" where
  "strip_leading seqs s =
     (case find (\<lambda>p. p \<noteq> [] \<and> take (length p) s = p) seqs of
        None \<Rightarrow> s
      | Some p \<Rightarrow> strip_leading seqs (drop (length p) s))"
  by pat_completeness auto

termination strip_leading
proof (relation "measure (\<lambda>(seqs, s). length s)")
  show "wf (measure (\<lambda>(seqs, s). length s))"
    by simp
next
  fix seqs :: "string list" and s p :: string
  assume "find (\<lambda>p. p \<noteq> [] \<and> take (length p) s = p) seqs = Some p"
  then have p: "p \<noteq> []" "take (length p) s = p"
    by (auto simp: find_Some_iff)
  then have "s \<noteq> []"
    by auto
  with p show "((seqs, drop (length p) s), (seqs, s)) \<in> measure (\<lambda>(seqs, s). length s)"
    by simp
qed

declare strip_leading.simps [simp del]

definition strings_TrimSpace :: "string \<Rightarrow> string" where
  "strings_TrimSpace s =
     rev (strip_leading (map rev spaces) (rev (strip_leading spaces s)))"

text \<open>
  \<open>path.Join\<close> and \<open>path.Clean\<close>. \<open>Clean\<close> works on the elements between slashes: it
  drops the empty ones and the dots, lets a double dot take away the element before it
  (or keeps it at the head of a path that is not rooted, or drops it at the root), and
  gives a dot for an empty result.
\<close>

definition clean_step :: "bool \<Rightarrow> string list \<Rightarrow> string \<Rightarrow> string list" where
  "clean_step rooted stack e =
     (if e = [] \<or> e = ''.'' then stack
      else if e = ''..'' then
        (case stack of
           [] \<Rightarrow> if rooted then stack else e # stack
         | t # ts \<Rightarrow> if t = ''..'' then e # stack else ts)
      else e # stack)"

fun join_slash :: "string list \<Rightarrow> string" where
  "join_slash [] = []"
| "join_slash [e] = e"
| "join_slash (e # es) = e @ ''/'' @ join_slash es"

definition path_Clean :: "string \<Rightarrow> string" where
  "path_Clean p =
     (case p of
        [] \<Rightarrow> ''.''
      | c # cs \<Rightarrow>
          (let rooted = (c = CHR ''/'');
               stack = foldl (clean_step rooted) [] (strings_Split p (CHR ''/''));
               out = (if rooted then ''/'' else []) @ join_slash (rev stack)
           in if out = [] then ''.'' else out))"

definition path_Join :: "string list \<Rightarrow> string" where
  "path_Join elem =
     (if concat elem = [] then []
      else path_Clean
             (foldl (\<lambda>buf e. if buf \<noteq> [] \<or> e \<noteq> []
                              then (if buf \<noteq> [] then buf @ ''/'' else buf) @ e
                              else buf) [] elem))"

section \<open>Tag resolution\<close>

text \<open>
  The shell pipeline of \<open>latestTwoTags\<close>, with the prefix put between the quotes of the
  \<open>grep\<close> pattern as \<open>fmt.Sprintf\<close> does, unescaped. \<open>CHR 0x27\<close> is the single quote
  and \<open>CHR 0x5C\<close> the backslash.
\<close>

definition latestTwoTags :: "Command \<Rightarrow> string \<Rightarrow> Cmd" where
  "latestTwoTags c tagGrepHead =
     (let q = [CHR 0x27];
          cmdStr = ''git tag --sort=-creatordate | grep '' @ q @ ''^'' @ tagGrepHead @ q
                   @ '' | head -n 2 | tr '' @ q @ [CHR 0x5C] @ ''n'' @ q @ '' '' @ q @ '' '' @ q
                   @ '' | sed '' @ q @ ''s/ $//'' @ q
      in Cmd ''bash'' [''-c'', cmdStr])"

definition IsDiffTag :: "Command \<Rightarrow> world \<Rightarrow> (bool \<times> string \<times> string) \<times> world" where
  "IsDiffTag c w =
     (if diffTagPrefix c \<noteq> [] then
        (case Output (latestTwoTags c (diffTagPrefix c)) w of
           (Inl e, w') \<Rightarrow> ((False, [], []), w')
         | (Inr output, w') \<Rightarrow>
             (let tags = strings_Split output (CHR '' '')
              in if length tags = 2 then ((True, tags ! 0, tags ! 1), w')
                 else ((True, [], []), w')))
      else ((False, [], []), w))"

section \<open>Argument vectors\<close>

definition diffNames :: "Command \<Rightarrow> world \<Rightarrow> Cmd \<times> world" where
  "diffNames c w =
     (let args = [''diff'', ''--name-only''];
          (args, w) =
            (if diffTagPrefix c \<noteq> [] then
               (case IsDiffTag c w of
                  ((isTag, tag1, tag2), w') \<Rightarrow>
                    if isTag \<and> tag1 \<noteq> [] \<and> tag2 \<noteq> [] then (args @ [tag1, tag2], w')
                    else (args, w'))
             else if isAmend c then (args @ [''HEAD^'', ''HEAD''], w)
             else (args @ [''--staged''], w));
          excludedFiles = excludeFiles c;
          args = args @ excludedFiles
      in (Cmd ''git'' args, w))"

definition diffFiles :: "Command \<Rightarrow> world \<Rightarrow> Cmd \<times> world" where
  "diffFiles c w =
     (let args = [''diff'', ''--ignore-all-space'', ''--diff-algorithm=minimal'',
                  ''--unified='' @ strconv_Itoa (diffUnified c)];
          (args, w) =
            (if diffTagPrefix c \<noteq> [] then
               (case IsDiffTag c w of
                  ((isTag, tag1, tag2), w') \<Rightarrow>
                    if isTag \<and> tag1 \<noteq> [] \<and> tag2 \<noteq> [] then (args @ [tag1, tag2], w')
                    else (args, w'))
             else if isAmend c then (args @ [''HEAD^'', ''HEAD''], w)
             else (args @ [''--staged''], w));
          excludedFiles = excludeFiles c;
          args = args @ excludedFiles
      in (Cmd ''git'' args, w))"

definition hookPath :: "Command \<Rightarrow> Cmd" where
  "hookPath c = Cmd ''git'' [''rev-parse'', ''--git-path'', ''hooks'']"

definition gitDir :: "Command \<Rightarrow> Cmd" where
  "gitDir c = Cmd ''git'' [''rev-parse'', ''--git-dir'']"

definition commit :: "Command \<Rightarrow> string \<Rightarrow> Cmd" where
  "commit c val =
     (let args = [''commit'', ''--no-verify'', ''--signoff'', ''--message='' @ val];
          args = (if isAmend c then args @ [''--amend''] else args)
      in Cmd ''git'' args)"

section \<open>Operations\<close>

text \<open>
  Go returns a pair of a string and an error; the string is empty whenever the error is
  set, so the pair is a sum here.
\<close>

definition Commit :: "Command \<Rightarrow> string \<Rightarrow> world \<Rightarrow> (error + string) \<times> world" where
  "Commit c val w =
     (case Output (commit c val) w of
        (Inl e, w') \<Rightarrow> (Inl e, w')
      | (Inr output, w') \<Rightarrow> (Inr output, w'))"

definition GitDir :: "Command \<Rightarrow> world \<Rightarrow> (error + string) \<times> world" where
  "GitDir c w =
     (case Output (gitDir c) w of
        (Inl e, w') \<Rightarrow> (Inl e, w')
      | (Inr output, w') \<Rightarrow> (Inr output, w'))"

definition errNothingStaged :: error where
  "errNothingStaged = ErrorString ''please add your staged changes using git add <files...>''"

definition DiffFiles :: "Command \<Rightarrow> world \<Rightarrow> (error + string) \<times> world" where
  "DiffFiles c w =
     (case diffNames c w of
        (names, w1) \<Rightarrow>
          (case Output names w1 of
             (Inl e, w2) \<Rightarrow> (Inl e, w2)
           | (Inr output, w2) \<Rightarrow>
               if output = [] then (Inl errNothingStaged, w2)
               else (case diffFiles c w2 of
                       (full, w3) \<Rightarrow>
                         (case Output full w3 of
                            (Inl e, w4) \<Rightarrow> (Inl e, w4)
                          | (Inr output, w4) \<Rightarrow> (Inr output, w4)))))"

section \<open>The commit-message hook\<close>

text \<open>
  Modelled from the spec: the constant \<open>HookPrepareCommitMessageTemplate\<close> is declared
  outside the sources; the spec calls it a fixed filename constant, and the messages of
  \<open>InstallHook\<close> and \<open>UninstallHook\<close> name the file.
\<close>

definition HookPrepareCommitMessageTemplate :: string where
  "HookPrepareCommitMessageTemplate = ''prepare-commit-msg''"

text \<open>\<open>file.IsFile\<close>: the path exists and is not a directory.\<close>

definition file_IsFile :: "world \<Rightarrow> string \<Rightarrow> bool" where
  "file_IsFile w name =
     (case files w name of
        None \<Rightarrow> False
      | Some Dir \<Rightarrow> False
      | Some (File data prm) \<Rightarrow> True)"

text \<open>
  \<open>os.WriteFile\<close> creates the file with the permissions given, or truncates the file
  that is there and keeps its permissions; \<open>os.Remove\<close> takes the entry away.
\<close>

definition os_WriteFile :: "string \<Rightarrow> string \<Rightarrow> nat \<Rightarrow> world \<Rightarrow> error option \<times> world" where
  "os_WriteFile name data prm w =
     (case refuse w (OpWrite name) of
        Some msg \<Rightarrow> (Some (PathError msg), w)
      | None \<Rightarrow>
          (case files w name of
             None \<Rightarrow> (None, w\<lparr>files := (files w)(name \<mapsto> File data prm)\<rparr>)
           | Some Dir \<Rightarrow> (Some (PathError ''is a directory''), w)
           | Some (File old oldprm) \<Rightarrow>
               (None, w\<lparr>files := (files w)(name \<mapsto> File data oldprm)\<rparr>)))"

definition os_Remove :: "string \<Rightarrow> world \<Rightarrow> error option \<times> world" where
  "os_Remove name w =
     (case refuse w (OpRemove name) of
        Some msg \<Rightarrow> (Some (PathError msg), w)
      | None \<Rightarrow>
          (case files w name of
             None \<Rightarrow> (Some (PathError ''no such file or directory''), w)
           | Some n \<Rightarrow> (None, w\<lparr>files := (files w)(name := None)\<rparr>)))"

definition errHookExists :: error where
  "errHookExists = ErrorString ''hook file prepare-commit-msg exist.''"

definition errHookMissing :: error where
  "errHookMissing = ErrorString ''hook file prepare-commit-msg is not exist.''"

text \<open>The permissions \<open>0o755\<close> are 493.\<close>

definition InstallHook :: "Command \<Rightarrow> world \<Rightarrow> error option \<times> world" where
  "InstallHook c w =
     (case Output (hookPath c) w of
        (Inl e, w1) \<Rightarrow> (Some e, w1)
      | (Inr hp, w1) \<Rightarrow>
          (let target = path_Join [strings_TrimSpace hp, HookPrepareCommitMessageTemplate]
           in if file_IsFile w1 target then (Some errHookExists, w1)
              else (case templates w1 HookPrepareCommitMessageTemplate of
                      Inl e \<Rightarrow> (Some e, w1)
                    | Inr content \<Rightarrow> os_WriteFile target content 493 w1)))"

definition UninstallHook :: "Command \<Rightarrow> world \<Rightarrow> error option \<times> world" where
  "UninstallHook c w =
     (case Output (hookPath c) w of
        (Inl e, w1) \<Rightarrow> (Some e, w1)
      | (Inr hp, w1) \<Rightarrow>
          (let target = path_Join [strings_TrimSpace hp, HookPrepareCommitMessageTemplate]
           in if \<not> file_IsFile w1 target then (Some errHookMissing, w1)
              else os_Remove target w1))"

section \<open>Vocabulary of the properties\<close>

text \<open>What the tag-listing pipeline answers when it is run in a world.\<close>

definition tagListing :: "Command \<Rightarrow> world \<Rightarrow> error + string" where
  "tagListing c w = respond w (trace w) (latestTwoTags c (diffTagPrefix c))"

text \<open>
  The hook file that \<open>InstallHook\<close> and \<open>UninstallHook\<close> compute from the output of
  the hooks-directory query.
\<close>

definition hookTarget :: "string \<Rightarrow> string" where
  "hookTarget hp = path_Join [strings_TrimSpace hp, HookPrepareCommitMessageTemplate]"

text \<open>
  The exclusion lists a caller supplies that have an effect, in the order given, and the
  one that is in force at the end: the last of them, since each replaces the one before.
\<close>

definition exclude_options :: "Option list \<Rightarrow> string list list" where
  "exclude_options opts =
     concat (map (\<lambda>opt. case opt of
                           WithExcludeList val \<Rightarrow> (if val = [] then [] else [val])
                         | _ \<Rightarrow> []) opts)"

definition supplied_excludes :: "Option list \<Rightarrow> string list" where
  "supplied_excludes opts = (case rev (exclude_options opts) of [] \<Rightarrow> [] | val # _ \<Rightarrow> val)"

text \<open>
  Worlds for the examples: one where every command prints the same text, one where every
  command fails, a repository with two tags and a changed file, and the same repository
  with the hook file in place.
\<close>

definition answering :: "string \<Rightarrow> world" where
  "answering out =
     \<lparr>respond = (\<lambda>done cmd. Inr out), trace = [], files = Map.empty,
      refuse = (\<lambda>op. None), templates = (\<lambda>name. Inr ''#!/bin/sh'')\<rparr>"

definition failing :: world where
  "failing =
     \<lparr>respond = (\<lambda>done cmd. Inl (ExecError ''exit status 1'')), trace = [],
      files = Map.empty, refuse = (\<lambda>op. None), templates = (\<lambda>name. Inr ''#!/bin/sh'')\<rparr>"

definition repo :: world where
  "repo =
     \<lparr>respond = (\<lambda>done cmd.
         if cmd_name cmd = ''bash'' then Inr ''v1.2.0 v1.1.0''
         else if cmd_args cmd = [''rev-parse'', ''--git-path'', ''hooks'']
           then Inr (''.git/hooks'' @ [CHR 0x0A])
         else if ''--name-only'' \<in> set (cmd_args cmd) then Inr (''main.go'' @ [CHR 0x0A])
         else Inr ''diff --git a/main.go b/main.go''),
      trace = [], files = Map.empty, refuse = (\<lambda>op. None),
      templates = (\<lambda>name. Inr ''#!/bin/sh'')\<rparr>"

definition hooked :: world where
  "hooked = repo\<lparr>files := [''.git/hooks/prepare-commit-msg'' \<mapsto> File ''#!/bin/sh'' 420]\<rparr>"

section \<open>Construction\<close>

lemma apply_all_append: "apply_all (xs @ ys) cfg = apply_all ys (apply_all xs cfg)"
  by (induction xs arbitrary: cfg) simp_all

lemma exclude_options_Cons:
  "exclude_options (opt # opts) =
     (case opt of WithExcludeList val \<Rightarrow> (if val = [] then [] else [val]) | _ \<Rightarrow> []) @ exclude_options opts"
  by (simp add: exclude_options_def)

lemma apply_all_excludeList:
  "cfg_excludeList (apply_all opts cfg) =
     (case rev (exclude_options opts) of [] \<Rightarrow> cfg_excludeList cfg | val # _ \<Rightarrow> val)"
proof (induction opts arbitrary: cfg)
  case Nil
  show ?case by (simp add: exclude_options_def)
next
  case (Cons opt opts)
  show ?case
    by (cases opt) (auto simp: Cons.IH exclude_options_Cons split: list.splits)
qed

text \<open>
  C6. Whatever options are given to \<open>New\<close>, the exclusion list of the command is the four
  built-in defaults, in order, followed by exactly the entries the caller supplied, that
  is the list of the last exclusion option that is not empty (a later option replaces an
  earlier one), or nothing when there is none. An empty exclusion option, wherever it
  stands among the options, changes nothing: the command is the one built without it.
\<close>

theorem New_excludeList:
  "excludeList (New opts) =
     [''package-lock.json'', ''pnpm-lock.yaml'', ''*.lock'', ''go.sum''] @ supplied_excludes opts
   \<and> New (opts @ WithExcludeList [] # opts') = New (opts @ opts')"
proof
  show "excludeList (New opts) =
     [''package-lock.json'', ''pnpm-lock.yaml'', ''*.lock'', ''go.sum''] @ supplied_excludes opts"
    by (simp add: New_def Let_def apply_all_excludeList supplied_excludes_def excludeFromDiff_def
          config_zero_def split: list.splits)
next
  show "New (opts @ WithExcludeList [] # opts') = New (opts @ opts')"
    by (simp add: New_def apply_all_append)
qed

theorem New_excludeList_witness:
  "excludeList (New [WithExcludeList [''vendor/*''], WithExcludeList [''dist'', ''go.sum''], WithExcludeList []]) =
     [''package-lock.json'', ''pnpm-lock.yaml'', ''*.lock'', ''go.sum'', ''dist'', ''go.sum'']"
  using New_excludeList [of "[WithExcludeList [''vendor/*''], WithExcludeList [''dist'', ''go.sum''], WithExcludeList []]" "[]"]
  by (simp add: supplied_excludes_def exclude_options_def)

lemma apply_option_frame:
  "opt = WithCommitId v \<or> opt = WithDiffList l \<Longrightarrow>
     cfg_diffUnified (apply_option opt cfg) = cfg_diffUnified cfg \<and>
     cfg_excludeList (apply_option opt cfg) = cfg_excludeList cfg \<and>
     cfg_isAmend (apply_option opt cfg) = cfg_isAmend cfg \<and>
     cfg_diffTagPrefix (apply_option opt cfg) = cfg_diffTagPrefix cfg"
  by auto

text \<open>
  C10. Appending \<open>WithCommitId\<close> or \<open>WithDiffList\<close>, with any argument, to the options
  given to \<open>New\<close> changes no field of the command built, so \<open>DiffFiles\<close>, \<open>Commit\<close>,
  \<open>GitDir\<close>, \<open>IsDiffTag\<close>, \<open>InstallHook\<close> and \<open>UninstallHook\<close> do the same in every
  world with or without the option.
\<close>

theorem New_ignores_commitId_diffList:
  assumes "opt = WithCommitId v \<or> opt = WithDiffList l"
  shows "New (opts @ [opt]) = New opts
       \<and> DiffFiles (New (opts @ [opt])) w = DiffFiles (New opts) w
       \<and> Commit (New (opts @ [opt])) msg w = Commit (New opts) msg w
       \<and> GitDir (New (opts @ [opt])) w = GitDir (New opts) w
       \<and> IsDiffTag (New (opts @ [opt])) w = IsDiffTag (New opts) w
       \<and> InstallHook (New (opts @ [opt])) w = InstallHook (New opts) w
       \<and> UninstallHook (New (opts @ [opt])) w = UninstallHook (New opts) w"
proof -
  have "New (opts @ [opt]) = New opts"
    using apply_option_frame [OF assms, of "apply_all opts config_zero"]
    by (simp add: New_def apply_all_append Let_def)
  then show ?thesis by simp
qed

theorem New_ignores_commitId_diffList_witness:
  "New [WithEnableAmend True, WithCommitId ''4f2a9c1''] = New [WithEnableAmend True]
   \<and> New [WithEnableAmend True, WithDiffList [''main.go'']] = New [WithEnableAmend True]"
  using New_ignores_commitId_diffList [of "WithCommitId ''4f2a9c1''" "''4f2a9c1''" "[]"
      "[WithEnableAmend True]" repo "[]"]
    New_ignores_commitId_diffList [of "WithDiffList [''main.go'']" "[]" "[''main.go'']"
      "[WithEnableAmend True]" repo "[]"]
  by simp

section \<open>Tag resolution\<close>

lemma strings_Split_not_Nil: "strings_Split s sep \<noteq> []"
  by (induction s) (auto split: list.splits)

lemma length_strings_Split: "length (strings_Split s sep) = Suc (count_list s sep)"
  by (induction s) (auto split: list.splits)

lemma strings_Split_single: "sep \<notin> set t \<Longrightarrow> strings_Split t sep = [t]"
  by (induction t) auto

lemma strings_Split_append:
  "sep \<notin> set t \<Longrightarrow> strings_Split (t @ sep # s) sep = t # strings_Split s sep"
  by (induction t) auto

lemma IsDiffTag_Inr:
  "diffTagPrefix c \<noteq> [] \<Longrightarrow> tagListing c w = Inr out \<Longrightarrow>
   IsDiffTag c w =
     ((case strings_Split out (CHR '' '') of
         [t1, t2] \<Rightarrow> (True, t1, t2)
       | _ \<Rightarrow> (True, [], [])),
      w\<lparr>trace := trace w @ [latestTwoTags c (diffTagPrefix c)]\<rparr>)"
  by (auto simp: IsDiffTag_def Output_def tagListing_def Let_def split: list.splits)

lemma IsDiffTag_Inl:
  "diffTagPrefix c \<noteq> [] \<Longrightarrow> tagListing c w = Inl e \<Longrightarrow>
   IsDiffTag c w = ((False, [], []), w\<lparr>trace := trace w @ [latestTwoTags c (diffTagPrefix c)]\<rparr>)"
  by (auto simp: IsDiffTag_def Output_def tagListing_def)

text \<open>
  C4, amended. For a command with a tag prefix whose tag listing succeeds, \<open>IsDiffTag\<close>
  splits the output at each space and returns the two pieces as \<open>(true, tag1, tag2)\<close>
  exactly when there are two pieces, that is when the output holds exactly one space; the
  pieces are returned as they are, empty or not. Any other number of pieces gives
  \<open>(true, "", "")\<close>. So \<open>"v1.2.0 v1.1.0"\<close> gives \<open>(true, "v1.2.0", "v1.1.0")\<close>, while
  \<open>"v1.2.0"\<close>, \<open>""\<close> and \<open>"v3 v2 v1"\<close> give \<open>(true, "", "")\<close>. Whether both tags are
  non-empty is tested by the callers, not here.
\<close>

theorem IsDiffTag_tokens:
  assumes "diffTagPrefix c \<noteq> []" and "tagListing c w = Inr out"
  shows "(CHR '' '' \<notin> set t1 \<and> CHR '' '' \<notin> set t2 \<and> out = t1 @ '' '' @ t2
            \<longrightarrow> fst (IsDiffTag c w) = (True, t1, t2))
       \<and> (count_list out (CHR '' '') \<noteq> 1 \<longrightarrow> fst (IsDiffTag c w) = (True, [], []))"
proof (intro conjI impI)
  assume "CHR '' '' \<notin> set t1 \<and> CHR '' '' \<notin> set t2 \<and> out = t1 @ '' '' @ t2"
  then have "strings_Split out (CHR '' '') = [t1, t2]"
    by (simp add: strings_Split_append strings_Split_single)
  then show "fst (IsDiffTag c w) = (True, t1, t2)"
    by (simp add: IsDiffTag_Inr [OF assms])
next
  assume "count_list out (CHR '' '') \<noteq> 1"
  then have "length (strings_Split out (CHR '' '')) \<noteq> 2"
    by (simp add: length_strings_Split)
  then show "fst (IsDiffTag c w) = (True, [], [])"
    by (auto simp: IsDiffTag_Inr [OF assms] split: list.splits)
qed

theorem IsDiffTag_tokens_witness:
  "fst (IsDiffTag (New [WithDiffTagPrefix ''v'']) (answering ''v1.2.0 v1.1.0'')) = (True, ''v1.2.0'', ''v1.1.0'')
   \<and> fst (IsDiffTag (New [WithDiffTagPrefix ''v'']) (answering ''v1.2.0'')) = (True, [], [])
   \<and> fst (IsDiffTag (New [WithDiffTagPrefix ''v'']) (answering [])) = (True, [], [])
   \<and> fst (IsDiffTag (New [WithDiffTagPrefix ''v'']) (answering ''v3 v2 v1'')) = (True, [], [])"
  using IsDiffTag_tokens [of "New [WithDiffTagPrefix ''v'']" "answering ''v1.2.0 v1.1.0''" "''v1.2.0 v1.1.0''" "''v1.2.0''" "''v1.1.0''"]
    IsDiffTag_tokens [of "New [WithDiffTagPrefix ''v'']" "answering ''v1.2.0''" "''v1.2.0''" "[]" "[]"]
    IsDiffTag_tokens [of "New [WithDiffTagPrefix ''v'']" "answering []" "[]" "[]" "[]"]
    IsDiffTag_tokens [of "New [WithDiffTagPrefix ''v'']" "answering ''v3 v2 v1''" "''v3 v2 v1''" "[]" "[]"]
  by (simp add: New_def config_zero_def tagListing_def answering_def)

text \<open>
  Two pieces of which one is empty are not turned into a pair of empty tags: an output with
  a space at its end comes back with its first tag.
\<close>

theorem IsDiffTag_empty_token_counterexample:
  "fst (IsDiffTag (New [WithDiffTagPrefix ''v'']) (answering ''v1.2.0 '')) = (True, ''v1.2.0'', [])"
  by (simp add: IsDiffTag_def Output_def New_def config_zero_def answering_def)

text \<open>
  C3, amended. For a command with a tag prefix, \<open>IsDiffTag\<close> reports \<open>is = true\<close> exactly
  when the tag listing could be run, whether or not a usable pair of tags was found; when
  the tag listing fails it returns \<open>(false, "", "")\<close>.
\<close>

theorem IsDiffTag_requested:
  assumes "diffTagPrefix c \<noteq> []"
  shows "fst (fst (IsDiffTag c w)) = (\<exists>out. tagListing c w = Inr out)
       \<and> ((\<exists>e. tagListing c w = Inl e) \<longrightarrow> fst (IsDiffTag c w) = (False, [], []))"
proof (cases "tagListing c w")
  case (Inl e)
  then show ?thesis by (simp add: IsDiffTag_Inl [OF assms])
next
  case (Inr out)
  then show ?thesis by (simp add: IsDiffTag_Inr [OF assms] split: list.splits)
qed

theorem IsDiffTag_requested_witness:
  "fst (fst (IsDiffTag (New [WithDiffTagPrefix ''v'']) (answering ''v1.2.0''))) = True
   \<and> fst (IsDiffTag (New [WithDiffTagPrefix ''v'']) failing) = (False, [], [])"
  using IsDiffTag_requested [of "New [WithDiffTagPrefix ''v'']" "answering ''v1.2.0''"]
    IsDiffTag_requested [of "New [WithDiffTagPrefix ''v'']" failing]
  by (simp add: New_def config_zero_def tagListing_def answering_def failing_def)

text \<open>With a tag prefix and a tag listing that fails, the flag returned is false.\<close>

theorem IsDiffTag_failure_counterexample:
  "fst (IsDiffTag (New [WithDiffTagPrefix ''v'']) failing) = (False, [], [])"
  by (simp add: IsDiffTag_def Output_def New_def config_zero_def failing_def)

section \<open>Argument vectors\<close>

lemma pathspec_not_range:
  "''--staged'' \<notin> set (excludeFiles c)" "''HEAD^'' \<notin> set (excludeFiles c)"
  "''HEAD'' \<notin> set (excludeFiles c)"
  by (auto simp: excludeFiles_def)

lemma diffNames_no_pair:
  assumes "diffTagPrefix c \<noteq> []" and "IsDiffTag c w = ((isTag, tag1, tag2), w')"
    and "\<not> (isTag \<and> tag1 \<noteq> [] \<and> tag2 \<noteq> [])"
  shows "diffNames c w = (Cmd ''git'' ([''diff'', ''--name-only''] @ excludeFiles c), w')"
  using assms by (auto simp: diffNames_def Let_def)

lemma diffFiles_no_pair:
  assumes "diffTagPrefix c \<noteq> []" and "IsDiffTag c w = ((isTag, tag1, tag2), w')"
    and "\<not> (isTag \<and> tag1 \<noteq> [] \<and> tag2 \<noteq> [])"
  shows "diffFiles c w =
           (Cmd ''git'' ([''diff'', ''--ignore-all-space'', ''--diff-algorithm=minimal'',
                          ''--unified='' @ strconv_Itoa (diffUnified c)] @ excludeFiles c), w')"
  using assms by (auto simp: diffFiles_def Let_def)

lemma no_prefix_names:
  "cmd_args (fst (diffNames (c\<lparr>diffTagPrefix := []\<rparr>) w)) =
     [''diff'', ''--name-only''] @ (if isAmend c then [''HEAD^'', ''HEAD''] else [''--staged''])
     @ excludeFiles c"
  by (simp add: diffNames_def excludeFiles_def)

lemma no_prefix_full:
  "cmd_args (fst (diffFiles (c\<lparr>diffTagPrefix := []\<rparr>) w)) =
     [''diff'', ''--ignore-all-space'', ''--diff-algorithm=minimal'',
      ''--unified='' @ strconv_Itoa (diffUnified c)]
     @ (if isAmend c then [''HEAD^'', ''HEAD''] else [''--staged''])
     @ excludeFiles c"
  by (simp add: diffFiles_def excludeFiles_def)

lemma longer_neq: "xs \<noteq> a # b # xs" "xs \<noteq> a # xs"
proof -
  show "xs \<noteq> a # b # xs"
  proof
    assume "xs = a # b # xs"
    then have "length xs = length (a # b # xs)" by (rule arg_cong)
    then show False by simp
  qed
  show "xs \<noteq> a # xs" by simp
qed

text \<open>
  C1, amended. For a command whose tag prefix is not empty and whose tag resolution gives no
  usable pair (\<open>IsDiffTag\<close> returns false, or an empty first or second tag), the other
  branch is not taken: the name-listing and the full-diff argument vectors carry no range
  argument at all, neither \<open>HEAD^ HEAD\<close> nor \<open>--staged\<close>, whatever the amend flag. The
  name-listing vector is \<open>diff --name-only\<close> followed by the exclusion pathspecs, and the
  full-diff vector is the four fixed arguments followed by the exclusion pathspecs. Both
  differ from the vectors of the same command with its tag prefix emptied.
\<close>

theorem no_pair_no_range:
  assumes "diffTagPrefix c \<noteq> []" and "IsDiffTag c w = ((isTag, tag1, tag2), w')"
    and "\<not> (isTag \<and> tag1 \<noteq> [] \<and> tag2 \<noteq> [])"
  shows "cmd_args (fst (diffNames c w)) = [''diff'', ''--name-only''] @ excludeFiles c
       \<and> cmd_args (fst (diffFiles c w)) =
           [''diff'', ''--ignore-all-space'', ''--diff-algorithm=minimal'',
            ''--unified='' @ strconv_Itoa (diffUnified c)] @ excludeFiles c
       \<and> ''--staged'' \<notin> set (cmd_args (fst (diffNames c w)))
       \<and> ''HEAD^'' \<notin> set (cmd_args (fst (diffNames c w)))
       \<and> ''--staged'' \<notin> set (cmd_args (fst (diffFiles c w)))
       \<and> ''HEAD^'' \<notin> set (cmd_args (fst (diffFiles c w)))
       \<and> cmd_args (fst (diffNames c w)) \<noteq> cmd_args (fst (diffNames (c\<lparr>diffTagPrefix := []\<rparr>) w))
       \<and> cmd_args (fst (diffFiles c w)) \<noteq> cmd_args (fst (diffFiles (c\<lparr>diffTagPrefix := []\<rparr>) w))"
proof -
  have names: "cmd_args (fst (diffNames c w)) = [''diff'', ''--name-only''] @ excludeFiles c"
    by (simp add: diffNames_no_pair [OF assms])
  have full: "cmd_args (fst (diffFiles c w)) =
      [''diff'', ''--ignore-all-space'', ''--diff-algorithm=minimal'',
       ''--unified='' @ strconv_Itoa (diffUnified c)] @ excludeFiles c"
    by (simp add: diffFiles_no_pair [OF assms])
  have absent: "''--staged'' \<notin> set (cmd_args (fst (diffNames c w)))"
    "''HEAD^'' \<notin> set (cmd_args (fst (diffNames c w)))"
    "''--staged'' \<notin> set (cmd_args (fst (diffFiles c w)))"
    "''HEAD^'' \<notin> set (cmd_args (fst (diffFiles c w)))"
    by (simp_all add: names full pathspec_not_range)
  have differ: "cmd_args (fst (diffNames c w)) \<noteq> cmd_args (fst (diffNames (c\<lparr>diffTagPrefix := []\<rparr>) w))"
    "cmd_args (fst (diffFiles c w)) \<noteq> cmd_args (fst (diffFiles (c\<lparr>diffTagPrefix := []\<rparr>) w))"
    by (simp_all add: names full no_prefix_names no_prefix_full longer_neq)
  from names full absent differ show ?thesis
    by blast
qed

theorem no_pair_no_range_witness:
  "cmd_args (fst (diffNames (New [WithDiffTagPrefix ''v'', WithEnableAmend True]) (answering ''v1.2.0''))) =
     [''diff'', ''--name-only'', '':(exclude,top)package-lock.json'', '':(exclude,top)pnpm-lock.yaml'',
      '':(exclude,top)*.lock'', '':(exclude,top)go.sum'']"
  using no_pair_no_range [of "New [WithDiffTagPrefix ''v'', WithEnableAmend True]" "answering ''v1.2.0''"
      True "[]" "[]" "(answering ''v1.2.0'')\<lparr>trace := [latestTwoTags (New [WithDiffTagPrefix ''v'', WithEnableAmend True]) ''v'']\<rparr>"]
  by (simp add: New_def config_zero_def IsDiffTag_def Output_def answering_def excludeFiles_def excludeFromDiff_def)

text \<open>
  With a tag prefix and no tag, or a tag listing that fails, the vectors hold neither
  \<open>--staged\<close> nor \<open>HEAD^\<close>, with the amend flag set or not.
\<close>

theorem fallthrough_counterexample:
  "''--staged'' \<notin> set (cmd_args (fst (diffNames (New [WithDiffTagPrefix ''v'']) (answering []))))
   \<and> ''--staged'' \<notin> set (cmd_args (fst (diffFiles (New [WithDiffTagPrefix ''v'']) (answering []))))
   \<and> ''HEAD^'' \<notin> set (cmd_args (fst (diffNames (New [WithDiffTagPrefix ''v'', WithEnableAmend True]) failing)))
   \<and> ''HEAD^'' \<notin> set (cmd_args (fst (diffFiles (New [WithDiffTagPrefix ''v'', WithEnableAmend True]) failing)))"
  by (simp add: diffNames_def diffFiles_def IsDiffTag_def Output_def New_def config_zero_def
        answering_def failing_def excludeFiles_def excludeFromDiff_def strconv_Itoa_def digits.simps)

lemma diffFiles_unified:
  "''--unified='' @ strconv_Itoa (diffUnified c) \<in> set (cmd_args (fst (diffFiles c w)))"
  by (simp add: diffFiles_def Let_def split: prod.splits)

lemma apply_all_diffUnified:
  "\<forall>opt \<in> set opts. \<forall>val. opt \<noteq> WithDiffUnified val \<Longrightarrow>
     cfg_diffUnified (apply_all opts cfg) = cfg_diffUnified cfg"
proof (induction opts arbitrary: cfg)
  case Nil
  show ?case by simp
next
  case (Cons opt opts)
  then show ?case by (cases opt) simp_all
qed

text \<open>
  C2, amended. For a command built with no context-line option, the context-line count is
  0, what the field holds in a fresh config (\<open>New\<close> sets no other default), so the full-diff
  argument vector contains \<open>--unified=0\<close>.
\<close>

theorem default_unified_zero:
  assumes "\<forall>opt \<in> set opts. \<forall>val. opt \<noteq> WithDiffUnified val"
  shows "diffUnified (New opts) = 0
       \<and> ''--unified=0'' \<in> set (cmd_args (fst (diffFiles (New opts) w)))"
proof -
  have z: "diffUnified (New opts) = 0"
    using apply_all_diffUnified [OF assms, of config_zero]
    by (simp add: New_def Let_def config_zero_def)
  have "strconv_Itoa 0 = ''0''"
    by (simp add: strconv_Itoa_def digits.simps)
  with z diffFiles_unified [of "New opts" w] show ?thesis
    by simp
qed

theorem default_unified_zero_witness:
  "diffUnified (New [WithEnableAmend True]) = 0
   \<and> ''--unified=0'' \<in> set (cmd_args (fst (diffFiles (New [WithEnableAmend True]) (answering ''x''))))"
  using default_unified_zero [of "[WithEnableAmend True]" "answering ''x''"]
  by simp

text \<open>Built with no option at all, the command does not ask for three lines of context.\<close>

theorem default_unified_counterexample:
  "diffUnified (New []) \<noteq> 3
   \<and> ''--unified=3'' \<notin> set (cmd_args (fst (diffFiles (New []) (answering ''x''))))"
  by (simp add: diffFiles_def New_def config_zero_def excludeFiles_def excludeFromDiff_def
        strconv_Itoa_def digits.simps)

text \<open>
  C7. For a command with an empty tag prefix and the amend flag not set, the name-listing
  argument vector is \<open>diff --name-only --staged\<close> followed by one
  \<open>:(exclude,top)\<close> pathspec for each entry of the exclusion list, in order. For a
  command with an empty tag prefix and the amend flag set, both diff vectors carry
  \<open>HEAD^ HEAD\<close> where the other has \<open>--staged\<close>, and the commit vector ends with
  \<open>--amend\<close>.
\<close>

theorem no_tag_prefix_args:
  assumes "diffTagPrefix c = []"
  shows "(\<not> isAmend c \<longrightarrow>
            cmd_args (fst (diffNames c w)) =
              [''diff'', ''--name-only'', ''--staged''] @ map (\<lambda>f. '':(exclude,top)'' @ f) (excludeList c))
       \<and> (isAmend c \<longrightarrow>
            cmd_args (fst (diffNames c w)) =
              [''diff'', ''--name-only'', ''HEAD^'', ''HEAD''] @ map (\<lambda>f. '':(exclude,top)'' @ f) (excludeList c)
          \<and> cmd_args (fst (diffFiles c w)) =
              [''diff'', ''--ignore-all-space'', ''--diff-algorithm=minimal'',
               ''--unified='' @ strconv_Itoa (diffUnified c), ''HEAD^'', ''HEAD'']
              @ map (\<lambda>f. '':(exclude,top)'' @ f) (excludeList c)
          \<and> cmd_args (commit c val) =
              [''commit'', ''--no-verify'', ''--signoff'', ''--message='' @ val, ''--amend''])"
  using assms by (simp add: diffNames_def diffFiles_def commit_def excludeFiles_def)

theorem no_tag_prefix_args_witness:
  "cmd_args (fst (diffNames (New [WithExcludeList [''dist'']]) failing)) =
     [''diff'', ''--name-only'', ''--staged'', '':(exclude,top)package-lock.json'',
      '':(exclude,top)pnpm-lock.yaml'', '':(exclude,top)*.lock'', '':(exclude,top)go.sum'',
      '':(exclude,top)dist'']
   \<and> cmd_args (commit (New [WithEnableAmend True]) ''fix: typo'') =
     [''commit'', ''--no-verify'', ''--signoff'', ''--message=fix: typo'', ''--amend'']"
  using no_tag_prefix_args [of "New [WithExcludeList [''dist'']]" failing "[]"]
    no_tag_prefix_args [of "New [WithEnableAmend True]" failing "''fix: typo''"]
  by (simp add: New_def config_zero_def excludeFromDiff_def)

section \<open>The diff\<close>

lemma IsDiffTag_world:
  "snd (IsDiffTag c w) =
     w\<lparr>trace := trace w @ (if diffTagPrefix c = [] then [] else [latestTwoTags c (diffTagPrefix c)])\<rparr>"
  by (auto simp: IsDiffTag_def Output_def Let_def split: sum.splits)

lemma diffNames_world:
  "snd (diffNames c w) =
     w\<lparr>trace := trace w @ (if diffTagPrefix c = [] then [] else [latestTwoTags c (diffTagPrefix c)])\<rparr>"
  using IsDiffTag_world [of c w]
  by (auto simp: diffNames_def Let_def split: prod.splits)

lemma diffNames_shape:
  "\<exists>rest. fst (diffNames c w) = Cmd ''git'' (''diff'' # ''--name-only'' # rest)"
  by (auto simp: diffNames_def Let_def split: prod.splits)

lemma diffFiles_shape:
  "\<exists>rest. fst (diffFiles c w) = Cmd ''git'' (''diff'' # ''--ignore-all-space'' # rest)"
  by (auto simp: diffFiles_def Let_def split: prod.splits)

lemma names_not_full: "fst (diffNames c w) \<noteq> fst (diffFiles c w')"
  using diffNames_shape [of c w] diffFiles_shape [of c w'] by auto

lemma tags_not_full: "latestTwoTags c p \<noteq> fst (diffFiles c' w')"
  using diffFiles_shape [of c' w'] by (auto simp: latestTwoTags_def Let_def)

text \<open>
  C5. \<open>DiffFiles\<close> first runs the name-listing command (building it runs the tag
  listing before, when a tag prefix is set). If that run fails, its error is returned,
  and nothing else is run. If it prints exactly the empty string, the result is
  the error that asks for staged changes, the name-listing command is the last command
  run, and no command run during the call is a full-diff command. Otherwise the full-diff
  command is run next and \<open>DiffFiles\<close> returns what that run gives, its output as it is
  or its error.
\<close>

theorem DiffFiles_contract:
  assumes "diffNames c w = (names, w1)"
  shows "(\<forall>e. respond w1 (trace w1) names = Inl e \<longrightarrow>
            fst (DiffFiles c w) = Inl e \<and> trace (snd (DiffFiles c w)) = trace w1 @ [names])
       \<and> (respond w1 (trace w1) names = Inr [] \<longrightarrow>
            fst (DiffFiles c w) = Inl errNothingStaged
          \<and> trace (snd (DiffFiles c w)) = trace w1 @ [names]
          \<and> (\<forall>w'. fst (diffFiles c w') \<notin> set (drop (length (trace w)) (trace (snd (DiffFiles c w))))))
       \<and> (\<forall>out full w3.
            out \<noteq> [] \<and> respond w1 (trace w1) names = Inr out
            \<and> diffFiles c (w1\<lparr>trace := trace w1 @ [names]\<rparr>) = (full, w3) \<longrightarrow>
            fst (DiffFiles c w) = respond w3 (trace w3) full
          \<and> trace (snd (DiffFiles c w)) = trace w3 @ [full])"
proof (intro conjI allI impI)
  fix e
  assume "respond w1 (trace w1) names = Inl e"
  then show "fst (DiffFiles c w) = Inl e" "trace (snd (DiffFiles c w)) = trace w1 @ [names]"
    using assms by (simp_all add: DiffFiles_def Output_def)
next
  assume r: "respond w1 (trace w1) names = Inr []"
  then show "fst (DiffFiles c w) = Inl errNothingStaged"
    using assms by (simp add: DiffFiles_def Output_def)
  from r show t: "trace (snd (DiffFiles c w)) = trace w1 @ [names]"
    using assms by (simp add: DiffFiles_def Output_def)
  fix w'
  have w1: "trace w1 = trace w @ (if diffTagPrefix c = [] then [] else [latestTwoTags c (diffTagPrefix c)])"
    using diffNames_world [of c w] assms by simp
  have "names \<noteq> fst (diffFiles c w')"
    using names_not_full [of c w w'] assms by simp
  then show "fst (diffFiles c w') \<notin> set (drop (length (trace w)) (trace (snd (DiffFiles c w))))"
    using tags_not_full [of c "diffTagPrefix c" c w'] by (auto simp: t w1)
next
  fix out full w3
  assume h: "out \<noteq> [] \<and> respond w1 (trace w1) names = Inr out
            \<and> diffFiles c (w1\<lparr>trace := trace w1 @ [names]\<rparr>) = (full, w3)"
  then show "fst (DiffFiles c w) = respond w3 (trace w3) full"
    using assms by (simp add: DiffFiles_def Output_def split: sum.splits)
  from h show "trace (snd (DiffFiles c w)) = trace w3 @ [full]"
    using assms by (simp add: DiffFiles_def Output_def split: sum.splits)
qed

theorem DiffFiles_contract_witness:
  "fst (DiffFiles (New []) failing) = Inl (ExecError ''exit status 1'')
   \<and> fst (DiffFiles (New []) (answering [])) = Inl errNothingStaged
   \<and> length (trace (snd (DiffFiles (New []) (answering [])))) = 1
   \<and> fst (DiffFiles (New []) repo) = Inr ''diff --git a/main.go b/main.go''"
proof -
  let ?names = "Cmd ''git'' ([''diff'', ''--name-only'', ''--staged''] @ excludeFiles (New []))"
  let ?full = "Cmd ''git'' ([''diff'', ''--ignore-all-space'', ''--diff-algorithm=minimal'',
                             ''--unified=0'', ''--staged''] @ excludeFiles (New []))"
  have n: "diffNames (New []) w = (?names, w)" for w
    by (simp add: diffNames_def New_def config_zero_def)
  have f: "diffFiles (New []) w = (?full, w)" for w
    by (simp add: diffFiles_def New_def config_zero_def strconv_Itoa_def digits.simps)
  have "fst (DiffFiles (New []) failing) = Inl (ExecError ''exit status 1'')"
    using DiffFiles_contract [OF n [of failing]] by (simp add: failing_def)
  moreover have "fst (DiffFiles (New []) (answering [])) = Inl errNothingStaged
      \<and> length (trace (snd (DiffFiles (New []) (answering [])))) = 1"
    using DiffFiles_contract [OF n [of "answering []"]] by (simp add: answering_def)
  moreover have "fst (DiffFiles (New []) repo) = Inr ''diff --git a/main.go b/main.go''"
    using DiffFiles_contract [OF n [of repo]] f [of "repo\<lparr>trace := trace repo @ [?names]\<rparr>"]
    by (simp add: repo_def excludeFiles_def New_def config_zero_def excludeFromDiff_def)
  ultimately show ?thesis by simp
qed

section \<open>Installing and removing the hook\<close>

text \<open>
  C8. When the hooks directory resolves and the hook file is there, \<open>InstallHook\<close> fails
  with the error that says so; when the hook file is not there, \<open>UninstallHook\<close> fails
  with the error that says so. In both cases the world is left as it was but for the
  record of the query run: no file is written, changed, created or removed.
\<close>

theorem hook_conflicts:
  assumes "respond w (trace w) (hookPath c) = Inr hp"
  shows "(file_IsFile w (hookTarget hp) \<longrightarrow>
            InstallHook c w = (Some errHookExists, w\<lparr>trace := trace w @ [hookPath c]\<rparr>)
          \<and> files (snd (InstallHook c w)) = files w)
       \<and> (\<not> file_IsFile w (hookTarget hp) \<longrightarrow>
            UninstallHook c w = (Some errHookMissing, w\<lparr>trace := trace w @ [hookPath c]\<rparr>)
          \<and> files (snd (UninstallHook c w)) = files w)"
  using assms
  by (simp add: InstallHook_def UninstallHook_def Output_def file_IsFile_def hookTarget_def)

lemma repo_hookPath:
  "respond w = respond repo \<Longrightarrow>
     respond w done (hookPath c) = Inr [CHR ''.'', CHR ''g'', CHR ''i'', CHR ''t'', CHR ''/'',
        CHR ''h'', CHR ''o'', CHR ''o'', CHR ''k'', CHR ''s'', CHR 0x0A]"
  by (simp add: repo_def hookPath_def)

lemma repo_hookTarget:
  "hookTarget [CHR ''.'', CHR ''g'', CHR ''i'', CHR ''t'', CHR ''/'',
        CHR ''h'', CHR ''o'', CHR ''o'', CHR ''k'', CHR ''s'', CHR 0x0A] = ''.git/hooks/prepare-commit-msg''"
  by code_simp

theorem hook_conflicts_witness:
  "fst (InstallHook (New []) hooked) = Some errHookExists
   \<and> files (snd (InstallHook (New []) hooked)) ''.git/hooks/prepare-commit-msg'' =
       Some (File ''#!/bin/sh'' 420)
   \<and> fst (UninstallHook (New []) repo) = Some errHookMissing
   \<and> files (snd (UninstallHook (New []) repo)) ''.git/hooks/prepare-commit-msg'' = None"
proof -
  have a: "file_IsFile hooked ''.git/hooks/prepare-commit-msg''"
    by (simp add: file_IsFile_def hooked_def)
  have b: "\<not> file_IsFile repo ''.git/hooks/prepare-commit-msg''"
    by (simp add: file_IsFile_def repo_def)
  have "respond hooked = respond repo"
    by (simp add: hooked_def)
  from hook_conflicts [OF repo_hookPath [OF this]] a
  have "fst (InstallHook (New []) hooked) = Some errHookExists
      \<and> files (snd (InstallHook (New []) hooked)) = files hooked"
    by (simp add: repo_hookTarget)
  moreover from hook_conflicts [OF repo_hookPath [OF refl]] b
  have "fst (UninstallHook (New []) repo) = Some errHookMissing
      \<and> files (snd (UninstallHook (New []) repo)) = files repo"
    by (simp add: repo_hookTarget)
  ultimately show ?thesis
    by (simp add: hooked_def repo_def)
qed

text \<open>
  C9. An \<open>InstallHook\<close> that succeeds, followed by an \<open>UninstallHook\<close> that succeeds,
  leaves the file system as it was before the two, with the hook file absent as it was at
  the start. Each operation asks for the hooks directory; the property is about one hooks
  directory, so both queries name the same hook file.
\<close>

theorem hook_roundtrip:
  assumes "InstallHook c w = (None, w1)" and "UninstallHook c w1 = (None, w2)"
    and "respond w (trace w) (hookPath c) = Inr hp"
    and "respond w1 (trace w1) (hookPath c) = Inr hp'"
    and "hookTarget hp' = hookTarget hp"
  shows "files w (hookTarget hp) = None \<and> file_IsFile w1 (hookTarget hp) \<and> files w2 = files w"
proof -
  let ?w' = "w\<lparr>trace := trace w @ [hookPath c]\<rparr>"
  from assms(1,3) obtain data where
    nofile: "\<not> file_IsFile w (hookTarget hp)"
    and wr: "os_WriteFile (hookTarget hp) data 493 ?w' = (None, w1)"
    by (auto simp: InstallHook_def Output_def Let_def file_IsFile_def hookTarget_def
          split: if_splits sum.splits)
  from wr nofile have absent: "files w (hookTarget hp) = None"
    and w1: "w1 = ?w'\<lparr>files := (files w)(hookTarget hp \<mapsto> File data 493)\<rparr>"
    by (auto simp: os_WriteFile_def file_IsFile_def split: option.splits node.splits)
  from w1 have isfile: "file_IsFile w1 (hookTarget hp)"
    by (simp add: file_IsFile_def)
  let ?w1' = "w1\<lparr>trace := trace w1 @ [hookPath c]\<rparr>"
  from assms(2,4,5) isfile have "os_Remove (hookTarget hp) ?w1' = (None, w2)"
    by (simp add: UninstallHook_def Output_def Let_def file_IsFile_def hookTarget_def)
  then have "files w2 = (files w1)(hookTarget hp := None)"
    by (auto simp: os_Remove_def split: option.splits)
  with w1 absent have "files w2 = files w"
    by (simp add: fun_upd_idem)
  with absent isfile show ?thesis by simp
qed

theorem hook_roundtrip_witness:
  "fst (InstallHook (New []) repo) = None
   \<and> files (snd (InstallHook (New []) repo)) ''.git/hooks/prepare-commit-msg'' =
       Some (File ''#!/bin/sh'' 493)
   \<and> fst (UninstallHook (New []) (snd (InstallHook (New []) repo))) = None
   \<and> files (snd (UninstallHook (New []) (snd (InstallHook (New []) repo)))) = files repo"
proof -
  let ?t = "''.git/hooks/prepare-commit-msg''"
  let ?w1 = "repo\<lparr>trace := [hookPath (New [])], files := [?t \<mapsto> File ''#!/bin/sh'' 493]\<rparr>"
  let ?w2 = "repo\<lparr>trace := [hookPath (New []), hookPath (New [])], files := Map.empty\<rparr>"
  have tg: "path_Join [strings_TrimSpace [CHR ''.'', CHR ''g'', CHR ''i'', CHR ''t'', CHR ''/'',
        CHR ''h'', CHR ''o'', CHR ''o'', CHR ''k'', CHR ''s'', CHR 0x0A], HookPrepareCommitMessageTemplate] = ?t"
    using repo_hookTarget by (simp add: hookTarget_def)
  have i: "InstallHook (New []) repo = (None, ?w1)"
    by (simp add: InstallHook_def Output_def repo_def hookPath_def tg file_IsFile_def
          os_WriteFile_def)
  have u: "UninstallHook (New []) ?w1 = (None, ?w2)"
    by (simp add: UninstallHook_def Output_def repo_def hookPath_def tg file_IsFile_def
          os_Remove_def)
  have "respond ?w1 = respond repo"
    by simp
  from hook_roundtrip [OF i u repo_hookPath [OF refl] repo_hookPath [OF this] refl]
  have "files ?w2 = files repo"
    by (rule conjunct2 [OF conjunct2])
  then have d: "files (snd (UninstallHook (New []) (snd (InstallHook (New []) repo)))) = files repo"
    by (simp only: i u snd_conv)
  have a: "fst (InstallHook (New []) repo) = None"
    by (simp add: i)
  have b: "files (snd (InstallHook (New []) repo)) ''.git/hooks/prepare-commit-msg'' =
             Some (File ''#!/bin/sh'' 493)"
    by (simp add: i)
  have c: "fst (UninstallHook (New []) (snd (InstallHook (New []) repo))) = None"
    by (simp add: i u)
  show ?thesis
    by (rule conjI [OF a conjI [OF b conjI [OF c d]]])
qed

end
